theory Spec2Isabelle
  imports Main "HOL-Library.Char_ord" "HOL-Library.List_Lexorder"
begin

section \<open>Python values, dictionaries and exceptions\<close>

text \<open>
  The documents that \<open>GoogleWorkspaceUserClient\<close> builds and sends are Python values:
  \<open>None\<close>, booleans, integers, strings, lists and dictionaries. A dictionary is an
  association list in insertion order, as Python keeps it; a well-formed one has distinct
  keys.
\<close>

datatype json =
    JNone
  | JBool bool
  | JInt int
  | JStr string
  | JList "json list"
  | JDict "(string \<times> json) list"

type_synonym dict = "(string \<times> json) list"

text \<open>
  The exceptions that cross \<open>users.py\<close>. The classes of
  \<open>authentik.lib.sync.outgoing.exceptions\<close> are the kinds of the error taxonomy (Transient,
  ObjectExists, NotFound, StopSync), none a subclass of another, so that a handler for one
  catches no other. \<open>StopSync\<close> carries its cause and, when there is one, the name of the
  offending mapping (the object is the argument of the call). \<open>ValueError\<close> carries its
  message, \<open>KeyError\<close> the missing key; \<open>OtherException\<close> stands for every class that
  no handler of \<open>users.py\<close> names.
\<close>

datatype exc =
    NotFoundSyncException
  | ObjectExistsSyncException
  | TransientSyncException
  | StopSync exc "string option"
  | PropertyMappingExpressionException string
  | ValueError string
  | KeyError string
  | TypeError
  | OtherException string

text \<open>\<open>d[k] = v\<close>: an existing key keeps its position, a new key goes to the end.\<close>

fun dict_set :: "dict \<Rightarrow> string \<Rightarrow> json \<Rightarrow> dict" where
  "dict_set [] k v = [(k, v)]"
| "dict_set ((k', v') # d) k v =
     (if k' = k then (k', v) # d else (k', v') # dict_set d k v)"

text \<open>\<open>k in d\<close>.\<close>

definition contains :: "dict \<Rightarrow> string \<Rightarrow> bool" where
  "contains d k = (k \<in> set (map fst d))"

text \<open>
  \<open>x[k]\<close> with a string key: a dictionary raises \<open>KeyError\<close> on a missing key, every
  other value raises \<open>TypeError\<close>.
\<close>

fun getitem :: "json \<Rightarrow> string \<Rightarrow> exc + json" where
  "getitem (JDict d) k = (case map_of d k of None \<Rightarrow> Inl (KeyError k) | Some v \<Rightarrow> Inr v)"
| "getitem x k = Inl TypeError"

text \<open>
  \<open>for x in v\<close>: a list yields its elements, a dictionary its keys, a string its
  characters; the other values are not iterable.
\<close>

fun iterate :: "json \<Rightarrow> exc + json list" where
  "iterate (JList xs) = Inr xs"
| "iterate (JDict d) = Inr (map (\<lambda>kv. JStr (fst kv)) d)"
| "iterate (JStr s) = Inr (map (\<lambda>c. JStr [c]) s)"
| "iterate x = Inl TypeError"

section \<open>The merge of the deepmerge library\<close>

text \<open>
  \<open>always_merger\<close> is \<open>Merger([(list, "append"), (dict, "merge"), (set, "union")],
  ["override"], ["override"])\<close>. Its \<open>value_strategy\<close> appends two lists, merges two
  dictionaries key by key (\<open>strategy_merge\<close>: a new key is added, an existing key gets the
  merge of both values) and otherwise returns the second value.
\<close>

function (sequential) value_strategy :: "json \<Rightarrow> json \<Rightarrow> json"
  and strategy_merge :: "dict \<Rightarrow> dict \<Rightarrow> dict" where
  "value_strategy (JList base) (JList nxt) = JList (base @ nxt)"
| "value_strategy (JDict base) (JDict nxt) = JDict (strategy_merge base nxt)"
| "value_strategy base nxt = nxt"
| "strategy_merge base [] = base"
| "strategy_merge base ((k, v) # nxt) =
     strategy_merge
       (case map_of base k of
          None \<Rightarrow> dict_set base k v
        | Some b \<Rightarrow> dict_set base k (value_strategy b v))
       nxt"
  by pat_completeness auto
termination
  by (relation "measure (\<lambda>x. case x of
         Inl (b, n) \<Rightarrow> size n
       | Inr (b, ns) \<Rightarrow> size_list (size_prod (\<lambda>_. 0) size) ns)") auto

text \<open>
  \<open>always_merger.merge(raw_google_user, value)\<close> as \<open>to_schema\<close> uses it: the result of
  the call is dropped, so only the in-place merge of a dictionary into the dictionary
  \<open>raw_google_user\<close> has an effect; a value of another type leaves it as it was.
\<close>

definition always_merger_merge :: "dict \<Rightarrow> json \<Rightarrow> dict" where
  "always_merger_merge raw v = (case v of JDict nxt \<Rightarrow> strategy_merge raw nxt | _ \<Rightarrow> raw)"

text \<open>
  Modelled from the spec: \<open>delete_none_values\<close> of \<open>authentik.policies.utils\<close>, which is
  not among the sources. "Strip all fields whose value is null/absent before returning."
\<close>

definition delete_none_values :: "dict \<Rightarrow> dict" where
  "delete_none_values d = filter (\<lambda>kv. snd kv \<noteq> JNone) d"

section \<open>Users, providers, link records and the client\<close>

text \<open>
  The method \<open>write\<close> is \<open>write_user\<close> here, \<open>_create\<close>, \<open>_update\<close> and \<open>_request\<close> are
  \<open>private_create\<close>, \<open>private_update\<close> and \<open>private_request\<close>.
\<close>

record user =
  user_pk :: nat
  email :: string

record mapping =
  name :: string
  is_google_workspace :: bool

record provider =
  provider_pk :: nat
  property_mappings :: "mapping list"

text \<open>
  Modelled from the spec: the table of \<open>GoogleWorkspaceProviderUser\<close>, whose model class is
  not among the sources. "LinkRecord: the durable tuple {provider, local_object_ref,
  external_id}"; the table has "no logic beyond CRUD + existence check". A row stores the
  identifier the client passes to \<open>objects.create\<close>.
\<close>

record link =
  link_provider :: nat
  link_user :: nat
  link_id :: json

datatype event = CONFIGURATION_ERROR exc string

datatype request = Insert json | Update json json | Delete json

text \<open>
  What a call can change: the link table and the event table (the local database), the
  remote directory, and the log of the requests sent to it.
\<close>

record 'r state =
  links :: "link list"
  events :: "event list"
  remote :: 'r
  calls :: "request list"

text \<open>
  The client \<open>self\<close>: its provider and the collaborators that are not part of
  \<open>users.py\<close>, each taken as it comes. \<open>evaluate\<close> is
  \<open>mapping.evaluate(user, request=None, provider)\<close>, an expression written by an
  administrator, which returns a value or raises, and is a function of its arguments;
  \<open>check_email_valid\<close> is the method of the base client, \<open>None\<close> when it returns and
  the exception when it raises; \<open>execute\<close> is the directory service together with the
  classification of its failures, which answers a request with a response or with an
  exception, and moves the remote directory to its next state.
\<close>

record 'r client =
  provider :: provider
  evaluate :: "mapping \<Rightarrow> user \<Rightarrow> provider \<Rightarrow> exc + json"
  check_email_valid :: "json list \<Rightarrow> exc option"
  execute :: "'r \<Rightarrow> request \<Rightarrow> (exc + json) \<times> 'r"

text \<open>
  \<open>objects.filter(provider=self.provider, user=obj).first()\<close>: the first row of this
  provider and user, \<open>None\<close> when there is none.
\<close>

definition first_link :: "'r client \<Rightarrow> 'r state \<Rightarrow> user \<Rightarrow> link option" where
  "first_link self st obj =
     find (\<lambda>l. link_provider l = provider_pk (provider self) \<and> link_user l = user_pk obj)
       (links st)"

text \<open>\<open>objects.create(provider=self.provider, user=user, id=i)\<close>\<close>

definition objects_create :: "'r client \<Rightarrow> user \<Rightarrow> json \<Rightarrow> 'r state \<Rightarrow> 'r state" where
  "objects_create self usr i st =
     st\<lparr>links := links st @
       [\<lparr>link_provider = provider_pk (provider self), link_user = user_pk usr, link_id = i\<rparr>]\<rparr>"

text \<open>\<open>google_user.delete()\<close>\<close>

definition link_delete :: "link \<Rightarrow> 'r state \<Rightarrow> 'r state" where
  "link_delete l st = st\<lparr>links := remove1 l (links st)\<rparr>"

text \<open>
  \<open>with transaction.atomic()\<close>: an exception that leaves the block rolls the local
  database back; what was sent to the remote directory stays sent.
\<close>

definition atomic ::
  "('r state \<Rightarrow> (exc + 'a) \<times> 'r state) \<Rightarrow> 'r state \<Rightarrow> (exc + 'a) \<times> 'r state" where
  "atomic body st =
     (case body st of
        (Inl e, st') \<Rightarrow> (Inl e, st'\<lparr>links := links st, events := events st\<rparr>)
      | (Inr v, st') \<Rightarrow> (Inr v, st'))"

text \<open>
  Modelled from the spec: \<open>_request\<close> of the base client, which is not among the sources.
  The Directory Client is a "thin transport to the external API's create/update/delete
  operations" that "classifies raw transport responses into the error taxonomy": the request
  is sent, and its outcome is returned or raised.
\<close>

definition private_request ::
  "'r client \<Rightarrow> 'r state \<Rightarrow> request \<Rightarrow> (exc + json) \<times> 'r state" where
  "private_request self st rq =
     (case execute self (remote st) rq of
        (res, r') \<Rightarrow> (res, st\<lparr>remote := r', calls := calls st @ [rq]\<rparr>))"

section \<open>to_schema\<close>

text \<open>
  The handler \<open>except (PropertyMappingExpressionException, ValueError)\<close>.
\<close>

fun is_mapping_error :: "exc \<Rightarrow> bool" where
  "is_mapping_error (PropertyMappingExpressionException m) = True"
| "is_mapping_error (ValueError m) = True"
| "is_mapping_error e = False"

text \<open>
  The loop of \<open>to_schema\<close> over the mappings, already in order, with the document
  accumulated so far.
\<close>

fun merge_mappings ::
  "'r client \<Rightarrow> user \<Rightarrow> mapping list \<Rightarrow> dict \<Rightarrow> 'r state \<Rightarrow> (exc + dict) \<times> 'r state" where
  "merge_mappings self obj [] raw st = (Inr raw, st)"
| "merge_mappings self obj (m # ms) raw st =
     (if \<not> is_google_workspace m then merge_mappings self obj ms raw st
      else case evaluate self m obj (provider self) of
        Inl e \<Rightarrow>
          (if is_mapping_error e
           then (Inl (StopSync e (Some (name m))),
                 st\<lparr>events := events st @ [CONFIGURATION_ERROR e (name m)]\<rparr>)
           else (Inl e, st))
      | Inr v \<Rightarrow>
          (if v = JNone then merge_mappings self obj ms raw st
           else merge_mappings self obj ms (always_merger_merge raw v) st))"

text \<open>
  \<open>property_mappings.all().order_by("name")\<close> is a stable sort by name, in the order of
  the character codes.
\<close>

definition to_schema :: "'r client \<Rightarrow> 'r state \<Rightarrow> user \<Rightarrow> (exc + json) \<times> 'r state" where
  "to_schema self st obj =
     (case merge_mappings self obj (sort_key name (property_mappings (provider self))) [] st of
        (Inl e, st') \<Rightarrow> (Inl e, st')
      | (Inr raw_google_user, st') \<Rightarrow>
          (if raw_google_user = []
           then (Inl (StopSync (ValueError ''No user mappings configured'') None), st')
           else
             (Inr (JDict (delete_none_values
                (if \<not> contains raw_google_user ''primaryEmail''
                 then dict_set raw_google_user ''primaryEmail'' (JStr (email obj))
                 else raw_google_user))), st')))"

section \<open>The client: write and delete\<close>

text \<open>\<open>[x["address"] for x in xs]\<close>: the first element that fails raises.\<close>

fun addresses :: "json list \<Rightarrow> exc + json list" where
  "addresses [] = Inr []"
| "addresses (x # xs) =
     (case getitem x ''address'' of
        Inl e \<Rightarrow> Inl e
      | Inr a \<Rightarrow> (case addresses xs of Inl e \<Rightarrow> Inl e | Inr as \<Rightarrow> Inr (a # as)))"

text \<open>
  The arguments of \<open>check_email_valid\<close>, evaluated left to right:
  \<open>google_user["primaryEmail"]\<close>, then the addresses of
  \<open>google_user.get("emails", [])\<close>.
\<close>

definition email_arguments :: "json \<Rightarrow> exc + json list" where
  "email_arguments google_user =
     (case getitem google_user ''primaryEmail'' of
        Inl e \<Rightarrow> Inl e
      | Inr p \<Rightarrow>
          (case iterate (case getitem google_user ''emails'' of Inl e \<Rightarrow> JList [] | Inr es \<Rightarrow> es) of
             Inl e \<Rightarrow> Inl e
           | Inr xs \<Rightarrow> (case addresses xs of Inl e \<Rightarrow> Inl e | Inr as \<Rightarrow> Inr (p # as))))"

definition private_create :: "'r client \<Rightarrow> 'r state \<Rightarrow> user \<Rightarrow> (exc + json) \<times> 'r state" where
  "private_create self st usr =
     (case to_schema self st usr of
        (Inl e, st') \<Rightarrow> (Inl e, st')
      | (Inr google_user, st') \<Rightarrow>
          (case email_arguments google_user of
             Inl e \<Rightarrow> (Inl e, st')
           | Inr args \<Rightarrow>
               (case check_email_valid self args of
                  Some e \<Rightarrow> (Inl e, st')
                | None \<Rightarrow>
                    atomic (\<lambda>s.
                      case private_request self s (Insert google_user) of
                        (Inl e, s') \<Rightarrow>
                          (if e = ObjectExistsSyncException
                           then (Inr JNone, objects_create self usr (JStr (email usr)) s')
                           else if e = TransientSyncException then (Inl e, s')
                           else (Inl e, s'))
                      | (Inr response, s') \<Rightarrow>
                          (case getitem response ''primaryEmail'' of
                             Inl e \<Rightarrow> (Inl e, s')
                           | Inr i \<Rightarrow> (Inr JNone, objects_create self usr i s'))) st')))"

definition private_update ::
  "'r client \<Rightarrow> 'r state \<Rightarrow> user \<Rightarrow> link \<Rightarrow> (exc + json) \<times> 'r state" where
  "private_update self st usr connection =
     (case to_schema self st usr of
        (Inl e, st') \<Rightarrow> (Inl e, st')
      | (Inr google_user, st') \<Rightarrow>
          (case email_arguments google_user of
             Inl e \<Rightarrow> (Inl e, st')
           | Inr args \<Rightarrow>
               (case check_email_valid self args of
                  Some e \<Rightarrow> (Inl e, st')
                | None \<Rightarrow>
                    (case private_request self st' (Update (link_id connection) google_user) of
                       (Inl e, s') \<Rightarrow> (Inl e, s')
                     | (Inr response, s') \<Rightarrow> (Inr JNone, s')))))"

definition write_user :: "'r client \<Rightarrow> 'r state \<Rightarrow> user \<Rightarrow> (exc + json) \<times> 'r state" where
  "write_user self st obj =
     (case first_link self st obj of
        None \<Rightarrow> private_create self st obj
      | Some google_user \<Rightarrow>
          (case private_update self st obj google_user of
             (Inl e, st') \<Rightarrow>
               (if e = NotFoundSyncException
                then private_create self (link_delete google_user st') obj
                else (Inl e, st'))
           | (Inr r, st') \<Rightarrow> (Inr r, st')))"

definition delete :: "'r client \<Rightarrow> 'r state \<Rightarrow> user \<Rightarrow> (exc + json) \<times> 'r state" where
  "delete self st obj =
     (case first_link self st obj of
        None \<Rightarrow> (Inr JNone, st)
      | Some google_user \<Rightarrow>
          atomic (\<lambda>s.
            case private_request self s (Delete (link_id google_user)) of
              (Inl e, s') \<Rightarrow> (Inl e, s')
            | (Inr response, s') \<Rightarrow> (Inr response, link_delete google_user s')) st)"

section \<open>A scripted directory and an example client\<close>

text \<open>
  A directory service that answers the requests it receives with a prepared list of
  outcomes, one after the other, as a mocked HTTP transport does in a test.
\<close>

definition scripted_directory ::
  "(exc + json) list \<Rightarrow> request \<Rightarrow> (exc + json) \<times> (exc + json) list" where
  "scripted_directory outcomes rq =
     (case outcomes of
        [] \<Rightarrow> (Inl TransientSyncException, [])
      | r # rs \<Rightarrow> (r, rs))"

definition alice :: user where
  "alice = \<lparr>user_pk = 1, email = ''alice@example.org''\<rparr>"

definition example_evaluate :: "mapping \<Rightarrow> user \<Rightarrow> provider \<Rightarrow> exc + json" where
  "example_evaluate m u p =
     (if name m = ''default'' then Inr (JDict [(''primaryEmail'', JStr (email u))])
      else if name m = ''a'' then Inr (JDict [(''name'', JStr ''A'')])
      else if name m = ''b'' then Inr (JDict [(''name'', JStr ''B'')])
      else if name m = ''nick''
        then Inr (JDict [(''primaryEmail'', JNone), (''nickName'', JStr ''Bob'')])
      else Inr JNone)"

definition example_client :: "string list \<Rightarrow> (exc + json) list client" where
  "example_client names =
     \<lparr>provider = \<lparr>provider_pk = 7,
        property_mappings = map (\<lambda>n. \<lparr>name = n, is_google_workspace = True\<rparr>) names\<rparr>,
      evaluate = example_evaluate,
      check_email_valid = (\<lambda>args. None),
      execute = scripted_directory\<rparr>"

definition example_state :: "link list \<Rightarrow> (exc + json) list \<Rightarrow> (exc + json) list state" where
  "example_state ls outcomes = \<lparr>links = ls, events = [], remote = outcomes, calls = []\<rparr>"

definition alice_link :: link where
  "alice_link = \<lparr>link_provider = 7, link_user = 1, link_id = JStr ''alice@example.org''\<rparr>"

definition alice_document :: json where
  "alice_document = JDict [(''primaryEmail'', JStr ''alice@example.org'')]"

section \<open>Facts about the building blocks\<close>

text \<open>
  A run of the mapping loop that returns a document has raised nothing, so it has saved no
  event: it returns the same document from any other state, and leaves that state as it is.
\<close>

lemma merge_mappings_ok:
  "fst (merge_mappings self obj ms raw st) = Inr d \<Longrightarrow> merge_mappings self obj ms raw st' = (Inr d, st')"
  by (induction ms arbitrary: raw) (auto split: sum.splits if_splits)

lemma to_schema_ok:
  assumes "fst (to_schema self st obj) = Inr d"
  shows "to_schema self st' obj = (Inr d, st')"
proof -
  let ?ms = "sort_key name (property_mappings (provider self))"
  obtain r s where m: "merge_mappings self obj ?ms [] st = (r, s)"
    by fastforce
  with assms obtain raw where r: "r = Inr raw"
    by (cases r) (auto simp: to_schema_def)
  from m r have "merge_mappings self obj ?ms [] st' = (Inr raw, st')"
    by (intro merge_mappings_ok[where st = st]) simp
  with assms m r show ?thesis
    by (auto simp: to_schema_def split: if_splits)
qed

text \<open>
  What \<open>_create\<close> and \<open>_update\<close> do once the document is built and its addresses
  are accepted: one request is sent, and its outcome decides the rest.
\<close>

lemma private_create_sent:
  assumes "to_schema self st usr = (Inr google_user, st)"
    and "email_arguments google_user = Inr args"
    and "check_email_valid self args = None"
    and "execute self (remote st) (Insert google_user) = (res, r')"
  shows "private_create self st usr =
    (case res of
       Inl e \<Rightarrow>
         (if e = ObjectExistsSyncException
          then (Inr JNone, st\<lparr>links := links st @
                  [\<lparr>link_provider = provider_pk (provider self), link_user = user_pk usr,
                    link_id = JStr (email usr)\<rparr>],
                remote := r', calls := calls st @ [Insert google_user]\<rparr>)
          else (Inl e, st\<lparr>remote := r', calls := calls st @ [Insert google_user]\<rparr>))
     | Inr response \<Rightarrow>
         (case getitem response ''primaryEmail'' of
            Inl e \<Rightarrow> (Inl e, st\<lparr>remote := r', calls := calls st @ [Insert google_user]\<rparr>)
          | Inr i \<Rightarrow> (Inr JNone, st\<lparr>links := links st @
                  [\<lparr>link_provider = provider_pk (provider self), link_user = user_pk usr,
                    link_id = i\<rparr>],
                remote := r', calls := calls st @ [Insert google_user]\<rparr>)))"
  using assms
  by (simp add: private_create_def atomic_def private_request_def objects_create_def
      split: sum.splits)

lemma private_update_sent:
  assumes "to_schema self st usr = (Inr google_user, st)"
    and "email_arguments google_user = Inr args"
    and "check_email_valid self args = None"
    and "execute self (remote st) (Update (link_id connection) google_user) = (res, r')"
  shows "private_update self st usr connection =
    (case res of Inl e \<Rightarrow> Inl e | Inr response \<Rightarrow> Inr JNone,
     st\<lparr>remote := r', calls := calls st @ [Update (link_id connection) google_user]\<rparr>)"
  using assms
  by (simp add: private_update_def private_request_def split: sum.splits)

lemma write_user_unlinked:
  "first_link self st obj = None \<Longrightarrow> write_user self st obj = private_create self st obj"
  by (simp add: write_user_def)

lemma to_schema_no_mappings:
  "property_mappings (provider self) = [] \<Longrightarrow>
   to_schema self st obj = (Inl (StopSync (ValueError ''No user mappings configured'') None), st)"
  by (simp add: to_schema_def)

lemma find_append_None:
  "find P xs = None \<Longrightarrow> find P (xs @ ys) = find P ys"
  by (induction xs) (auto split: if_splits)

lemma filter_find_None:
  "find P xs = None \<Longrightarrow> filter P xs = []"
  by (induction xs) (auto split: if_splits)

text \<open>
  The keys of the accumulated document stay distinct: \<open>dict_set\<close> replaces the value of
  an existing key in place, and every merge goes through it.
\<close>

lemma dict_set_keys:
  "map fst (dict_set d k v) = (if k \<in> fst ` set d then map fst d else map fst d @ [k])"
  by (induction d) force+

lemma dict_set_distinct:
  "distinct (map fst d) \<Longrightarrow> distinct (map fst (dict_set d k v))"
  by (simp add: dict_set_keys)

lemma strategy_merge_distinct:
  "distinct (map fst base) \<Longrightarrow> distinct (map fst (strategy_merge base nxt))"
proof (induction nxt arbitrary: base)
  case Nil
  then show ?case by simp
next
  case (Cons a nxt)
  obtain k v where a: "a = (k, v)" by (cases a)
  show ?case
    unfolding a strategy_merge.simps
    by (rule Cons.IH) (simp add: dict_set_distinct Cons.prems split: option.splits)
qed

lemma merge_mappings_distinct:
  "merge_mappings self obj ms raw st = (Inr d, st') \<Longrightarrow> distinct (map fst raw) \<Longrightarrow>
   distinct (map fst d)"
proof (induction ms arbitrary: raw)
  case Nil
  then show ?case by simp
next
  case (Cons m ms)
  have step: "distinct (map fst (always_merger_merge raw v))" for v
    using Cons.prems(2) by (cases v) (simp_all add: always_merger_merge_def strategy_merge_distinct)
  from Cons.prems(1) show ?case
    using Cons.IH [OF _ Cons.prems(2)] Cons.IH [OF _ step]
    by (auto split: if_splits sum.splits)
qed

lemma none_value_stripped:
  assumes "distinct (map fst d)" and "map_of d k = Some JNone"
  shows "\<not> contains (delete_none_values d) k"
proof
  assume "contains (delete_none_values d) k"
  then obtain v where "(k, v) \<in> set d" and "v \<noteq> JNone"
    by (auto simp: contains_def delete_none_values_def)
  with assms show False
    by (simp add: map_of_eq_Some_iff)
qed

lemmas example_defs =
  example_client_def example_state_def alice_def alice_link_def alice_document_def
  example_evaluate_def scripted_directory_def first_link_def to_schema_def
  always_merger_merge_def contains_def delete_none_values_def email_arguments_def

lemma example_schema:
  "to_schema (example_client [''default'']) (example_state ls outcomes) alice =
     (Inr alice_document, example_state ls outcomes)"
  by (simp add: example_defs)

lemma example_arguments:
  "email_arguments alice_document = Inr [JStr ''alice@example.org'']"
  by (simp add: example_defs)

lemma example_check:
  "check_email_valid (example_client names) args = None"
  by (simp add: example_defs)

section \<open>The claims\<close>

subsection \<open>C1: writing twice\<close>

text \<open>
  C1. Writing a user twice in succession is idempotent. The user has no link record, the
  document is built and accepted, and the directory answers the insert with a response that
  names the \<open>primaryEmail\<close>; the directory is then left alone, so the update of the object
  just created does not report NotFound. The first call sends the insert and adds one link
  record. The second call finds it and sends one update and no insert, leaves the link table
  as the first call left it, and the table holds exactly one link record of this provider
  and user.
\<close>

theorem write_twice_idempotent:
  assumes "first_link self st usr = None"
    and "to_schema self st usr = (Inr google_user, st)"
    and "email_arguments google_user = Inr args"
    and "check_email_valid self args = None"
    and "execute self (remote st) (Insert google_user) = (Inr response, r1)"
    and "getitem response ''primaryEmail'' = Inr i"
    and "execute self r1 (Update i google_user) = (res, r2)"
    and "res \<noteq> Inl NotFoundSyncException"
  shows
    "(let new = \<lparr>link_provider = provider_pk (provider self), link_user = user_pk usr,
                  link_id = i\<rparr>;
          st1 = st\<lparr>links := links st @ [new], remote := r1,
                   calls := calls st @ [Insert google_user]\<rparr>
      in write_user self st usr = (Inr JNone, st1)
       \<and> write_user self st1 usr =
           (case res of Inl e \<Rightarrow> Inl e | Inr response' \<Rightarrow> Inr JNone,
            st1\<lparr>remote := r2,
                calls := calls st @ [Insert google_user, Update i google_user]\<rparr>)
       \<and> filter (\<lambda>l. link_provider l = provider_pk (provider self) \<and>
                       link_user l = user_pk usr) (links st1) = [new])"
proof -
  let ?P = "\<lambda>l. link_provider l = provider_pk (provider self) \<and> link_user l = user_pk usr"
  let ?new = "\<lparr>link_provider = provider_pk (provider self), link_user = user_pk usr,
                link_id = i\<rparr>"
  let ?st1 = "st\<lparr>links := links st @ [?new], remote := r1,
                  calls := calls st @ [Insert google_user]\<rparr>"
  have none: "find ?P (links st) = None"
    using assms(1) by (simp add: first_link_def)
  have first: "write_user self st usr = (Inr JNone, ?st1)"
    using assms by (simp add: write_user_unlinked private_create_sent)
  have linked: "first_link self ?st1 usr = Some ?new"
    using none by (simp add: first_link_def find_append_None)
  have sch: "to_schema self ?st1 usr = (Inr google_user, ?st1)"
    using assms(2) by (intro to_schema_ok[where st = st]) simp
  have upd: "execute self (remote ?st1) (Update (link_id ?new) google_user) = (res, r2)"
    using assms(7) by simp
  have second: "write_user self ?st1 usr =
      (case res of Inl e \<Rightarrow> Inl e | Inr response' \<Rightarrow> Inr JNone,
       ?st1\<lparr>remote := r2, calls := calls st @ [Insert google_user, Update i google_user]\<rparr>)"
    using linked assms(8) private_update_sent [OF sch assms(3) assms(4) upd]
    by (cases res) (simp_all add: write_user_def)
  have one: "filter ?P (links ?st1) = [?new]"
    using none by (simp add: filter_find_None)
  from first second one show ?thesis
    by (simp only: Let_def) 
qed

theorem write_twice_idempotent_witness:
  "first_link (example_client [''default''])
     (example_state [] [Inr alice_document, Inr alice_document]) alice = None
   \<and> execute (example_client [''default'']) [Inr alice_document, Inr alice_document]
         (Insert alice_document) = (Inr alice_document, [Inr alice_document])
   \<and> execute (example_client [''default'']) [Inr alice_document]
         (Update (JStr ''alice@example.org'') alice_document) = (Inr alice_document, [])
   \<and> write_user (example_client [''default''])
         (example_state [] [Inr alice_document, Inr alice_document]) alice =
       (Inr JNone,
        \<lparr>links = [alice_link], events = [], remote = [Inr alice_document],
          calls = [Insert alice_document]\<rparr>)
   \<and> write_user (example_client [''default''])
         \<lparr>links = [alice_link], events = [], remote = [Inr alice_document],
           calls = [Insert alice_document]\<rparr> alice =
       (Inr JNone,
        \<lparr>links = [alice_link], events = [], remote = [],
          calls = [Insert alice_document,
                   Update (JStr ''alice@example.org'') alice_document]\<rparr>)"
proof -
  let ?self = "example_client [''default'']"
  let ?st = "example_state [] [Inr alice_document, Inr alice_document]"
  have h1: "first_link ?self ?st alice = None"
    by (simp add: example_defs)
  have h5: "execute ?self (remote ?st) (Insert alice_document) =
      (Inr alice_document, [Inr alice_document])"
    by (simp add: example_defs)
  have h6: "getitem alice_document ''primaryEmail'' = Inr (JStr ''alice@example.org'')"
    by (simp add: example_defs)
  have h7: "execute ?self [Inr alice_document]
      (Update (JStr ''alice@example.org'') alice_document) = (Inr alice_document, [])"
    by (simp add: example_defs)
  have h8: "(Inr alice_document :: exc + json) \<noteq> Inl NotFoundSyncException"
    by simp
  from write_twice_idempotent [OF h1 example_schema example_arguments example_check h5 h6 h7 h8]
    h1 h5 h7
  show ?thesis
    by (simp add: Let_def example_client_def example_state_def alice_def alice_link_def
        scripted_directory_def)
qed

subsection \<open>C2: a link record whose remote object is gone\<close>

text \<open>
  C2. The user has a link record, and the directory answers the update with NotFound. Then
  \<open>write\<close> deletes the stale link record and runs the create path: the insert is sent after
  the update, and its outcome alone decides the result. When the insert succeeds or reports
  ObjectExists the call returns with a fresh link record in place of the stale one; an error
  is raised only when the create path itself raises one, never because of the NotFound.
\<close>

theorem write_recreates_after_not_found:
  assumes "first_link self st usr = Some stale"
    and "to_schema self st usr = (Inr google_user, st)"
    and "email_arguments google_user = Inr args"
    and "check_email_valid self args = None"
    and "execute self (remote st) (Update (link_id stale) google_user) =
           (Inl NotFoundSyncException, r1)"
    and "execute self r1 (Insert google_user) = (res, r2)"
  shows "write_user self st usr =
    (case res of
       Inl e \<Rightarrow>
         (if e = ObjectExistsSyncException
          then (Inr JNone,
                st\<lparr>links := remove1 stale (links st) @
                     [\<lparr>link_provider = provider_pk (provider self), link_user = user_pk usr,
                       link_id = JStr (email usr)\<rparr>],
                   remote := r2,
                   calls := calls st @ [Update (link_id stale) google_user, Insert google_user]\<rparr>)
          else (Inl e,
                st\<lparr>links := remove1 stale (links st), remote := r2,
                   calls := calls st @ [Update (link_id stale) google_user, Insert google_user]\<rparr>))
     | Inr response \<Rightarrow>
         (case getitem response ''primaryEmail'' of
            Inl e \<Rightarrow>
              (Inl e,
               st\<lparr>links := remove1 stale (links st), remote := r2,
                  calls := calls st @ [Update (link_id stale) google_user, Insert google_user]\<rparr>)
          | Inr i \<Rightarrow>
              (Inr JNone,
               st\<lparr>links := remove1 stale (links st) @
                    [\<lparr>link_provider = provider_pk (provider self), link_user = user_pk usr,
                      link_id = i\<rparr>],
                  remote := r2,
                  calls := calls st @ [Update (link_id stale) google_user, Insert google_user]\<rparr>)))"
proof -
  let ?st1 = "st\<lparr>remote := r1, calls := calls st @ [Update (link_id stale) google_user]\<rparr>"
  let ?st2 = "link_delete stale ?st1"
  have upd: "private_update self st usr stale = (Inl NotFoundSyncException, ?st1)"
    using assms by (simp add: private_update_sent)
  have sch: "to_schema self ?st2 usr = (Inr google_user, ?st2)"
    using assms(2) by (intro to_schema_ok[where st = st]) simp
  have ins: "execute self (remote ?st2) (Insert google_user) = (res, r2)"
    using assms(6) by (simp add: link_delete_def)
  have "write_user self st usr = private_create self ?st2 usr"
    using assms(1) upd by (simp add: write_user_def)
  also note private_create_sent [OF sch assms(3) assms(4) ins]
  finally show ?thesis
    by (simp add: link_delete_def split: sum.splits)
qed

theorem write_recreates_after_not_found_witness:
  "first_link (example_client [''default''])
     (example_state [alice_link] [Inl NotFoundSyncException, Inr alice_document]) alice =
     Some alice_link
   \<and> execute (example_client [''default'']) [Inl NotFoundSyncException, Inr alice_document]
         (Update (link_id alice_link) alice_document) =
       (Inl NotFoundSyncException, [Inr alice_document])
   \<and> write_user (example_client [''default''])
         (example_state [alice_link] [Inl NotFoundSyncException, Inr alice_document]) alice =
       (Inr JNone,
        \<lparr>links = [alice_link], events = [], remote = [],
          calls = [Update (JStr ''alice@example.org'') alice_document,
                   Insert alice_document]\<rparr>)"
proof -
  let ?self = "example_client [''default'']"
  let ?st = "example_state [alice_link] [Inl NotFoundSyncException, Inr alice_document]"
  have h1: "first_link ?self ?st alice = Some alice_link"
    by (simp add: example_defs)
  have h5: "execute ?self (remote ?st) (Update (link_id alice_link) alice_document) =
      (Inl NotFoundSyncException, [Inr alice_document])"
    by (simp add: example_defs)
  have h6: "execute ?self [Inr alice_document] (Insert alice_document) =
      (Inr alice_document, [])"
    by (simp add: example_defs)
  from write_recreates_after_not_found
    [OF h1 example_schema example_arguments example_check h5 h6] h1 h5
  show ?thesis
    by (simp add: example_client_def example_state_def alice_def alice_link_def
        alice_document_def scripted_directory_def)
qed

subsection \<open>C3: the remote object exists already\<close>

text \<open>
  C3. The user has no link record and the directory answers the insert with ObjectExists.
  Then \<open>write\<close> returns without an error, and the link table gains one link record whose
  external identifier is the email address of the user.
\<close>

theorem write_adopts_existing_object:
  assumes "first_link self st usr = None"
    and "to_schema self st usr = (Inr google_user, st)"
    and "email_arguments google_user = Inr args"
    and "check_email_valid self args = None"
    and "execute self (remote st) (Insert google_user) = (Inl ObjectExistsSyncException, r')"
  shows "write_user self st usr =
    (Inr JNone,
     st\<lparr>links := links st @
          [\<lparr>link_provider = provider_pk (provider self), link_user = user_pk usr,
            link_id = JStr (email usr)\<rparr>],
        remote := r', calls := calls st @ [Insert google_user]\<rparr>)"
  using assms by (simp add: write_user_unlinked private_create_sent)

theorem write_adopts_existing_object_witness:
  "first_link (example_client [''default''])
     (example_state [] [Inl ObjectExistsSyncException]) alice = None
   \<and> execute (example_client [''default'']) [Inl ObjectExistsSyncException]
         (Insert alice_document) = (Inl ObjectExistsSyncException, [])
   \<and> write_user (example_client [''default''])
         (example_state [] [Inl ObjectExistsSyncException]) alice =
       (Inr JNone,
        \<lparr>links = [alice_link], events = [], remote = [], calls = [Insert alice_document]\<rparr>)"
proof -
  let ?self = "example_client [''default'']"
  let ?st = "example_state [] [Inl ObjectExistsSyncException]"
  have h1: "first_link ?self ?st alice = None"
    by (simp add: example_defs)
  have h5: "execute ?self (remote ?st) (Insert alice_document) =
      (Inl ObjectExistsSyncException, [])"
    by (simp add: example_defs)
  from write_adopts_existing_object [OF h1 example_schema example_arguments example_check h5]
    h1 h5
  show ?thesis
    by (simp add: example_defs)
qed

subsection \<open>C4: delete when the remote object is gone\<close>

text \<open>
  C4, as stated, asks that a NotFound answer to the remote delete counts as success and that
  the link record is removed all the same. \<open>delete\<close> has no handler: with a link record in
  the table and a directory that answers NotFound, the exception reaches the caller and the
  link record is still there.
\<close>

theorem delete_not_found_counterexample:
  "first_link (example_client [''default''])
     (example_state [alice_link] [Inl NotFoundSyncException]) alice = Some alice_link
   \<and> execute (example_client [''default'']) [Inl NotFoundSyncException]
         (Delete (link_id alice_link)) = (Inl NotFoundSyncException, [])
   \<and> delete (example_client [''default''])
         (example_state [alice_link] [Inl NotFoundSyncException]) alice =
       (Inl NotFoundSyncException,
        \<lparr>links = [alice_link], events = [], remote = [],
          calls = [Delete (JStr ''alice@example.org'')]\<rparr>)"
  by (simp add: example_defs delete_def atomic_def private_request_def)

text \<open>
  C4, amended. The user has a link record and the directory answers the delete with
  NotFound. Then \<open>delete\<close> raises NotFoundSyncException to the caller, after the one
  delete request, and the link table is unchanged.
\<close>

theorem delete_not_found_propagates:
  assumes "first_link self st obj = Some google_user"
    and "execute self (remote st) (Delete (link_id google_user)) = (Inl NotFoundSyncException, r')"
  shows "delete self st obj =
      (Inl NotFoundSyncException,
       st\<lparr>remote := r', calls := calls st @ [Delete (link_id google_user)]\<rparr>)
    \<and> links (snd (delete self st obj)) = links st"
  using assms by (simp add: delete_def atomic_def private_request_def)

theorem delete_not_found_propagates_witness:
  "first_link (example_client [])
     (example_state [alice_link, alice_link\<lparr>link_user := 2\<rparr>] [Inl NotFoundSyncException])
     alice = Some alice_link
   \<and> delete (example_client [])
         (example_state [alice_link, alice_link\<lparr>link_user := 2\<rparr>] [Inl NotFoundSyncException])
         alice =
       (Inl NotFoundSyncException,
        \<lparr>links = [alice_link, alice_link\<lparr>link_user := 2\<rparr>], events = [], remote = [],
          calls = [Delete (JStr ''alice@example.org'')]\<rparr>)"
proof -
  let ?self = "example_client []"
  let ?st = "example_state [alice_link, alice_link\<lparr>link_user := 2\<rparr>] [Inl NotFoundSyncException]"
  have h1: "first_link ?self ?st alice = Some alice_link"
    by (simp add: example_defs)
  have h2: "execute ?self (remote ?st) (Delete (link_id alice_link)) =
      (Inl NotFoundSyncException, [])"
    by (simp add: example_defs)
  from delete_not_found_propagates [OF h1 h2] h1 show ?thesis
    by (simp add: example_state_def alice_link_def)
qed

subsection \<open>C5: a null primaryEmail from the mappings\<close>

text \<open>
  C5 expects the document \<open>{"nickName": "Bob", "primaryEmail": <the email of the user>}\<close>
  when the mappings give \<open>{"primaryEmail": None, "nickName": "Bob"}\<close>. The code tests
  \<open>"primaryEmail" not in raw_google_user\<close> before the null values are stripped: the key is
  there, nothing is filled in, and the stripping then removes it. \<open>to_schema\<close> returns
  \<open>{"nickName": "Bob"}\<close>, and \<open>write\<close> fails on \<open>google_user["primaryEmail"]\<close>.
\<close>

theorem to_schema_null_primary_email:
  "evaluate (example_client [''nick'']) \<lparr>name = ''nick'', is_google_workspace = True\<rparr> alice
     (provider (example_client [''nick''])) =
     Inr (JDict [(''primaryEmail'', JNone), (''nickName'', JStr ''Bob'')])
   \<and> to_schema (example_client [''nick'']) (example_state [] []) alice =
       (Inr (JDict [(''nickName'', JStr ''Bob'')]), example_state [] [])
   \<and> write_user (example_client [''nick'']) (example_state [] []) alice =
       (Inl (KeyError ''primaryEmail''), example_state [] [])"
  by (simp add: example_defs write_user_def private_create_def)

subsection \<open>C6: the later mapping wins\<close>

text \<open>
  C6. The provider has two mappings of the right kind, attached in either order; sorted by
  name the first gives \<open>{"name": "A"}\<close> and the second \<open>{"name": "B"}\<close>. Then the
  document of \<open>to_schema\<close> has \<open>"name"\<close> equal to \<open>"B"\<close> (and the default
  \<open>primaryEmail\<close>, which no mapping gave).
\<close>

theorem to_schema_last_mapping_wins:
  assumes "property_mappings (provider self) = [m1, m2] \<or>
           property_mappings (provider self) = [m2, m1]"
    and "name m1 < name m2"
    and "is_google_workspace m1" and "is_google_workspace m2"
    and "evaluate self m1 obj (provider self) = Inr (JDict [(''name'', JStr ''A'')])"
    and "evaluate self m2 obj (provider self) = Inr (JDict [(''name'', JStr ''B'')])"
  shows "to_schema self st obj =
    (Inr (JDict [(''name'', JStr ''B''), (''primaryEmail'', JStr (email obj))]), st)"
proof -
  have "sort_key name (property_mappings (provider self)) = [m1, m2]"
    using assms(1,2) by auto
  then show ?thesis
    using assms(3-6)
    by (simp add: to_schema_def always_merger_merge_def contains_def delete_none_values_def)
qed

theorem to_schema_last_mapping_wins_witness:
  "property_mappings (provider (example_client [''b'', ''a''])) =
     [\<lparr>name = ''b'', is_google_workspace = True\<rparr>, \<lparr>name = ''a'', is_google_workspace = True\<rparr>]
   \<and> (''a'' :: string) < ''b''
   \<and> to_schema (example_client [''b'', ''a'']) (example_state [] []) alice =
       (Inr (JDict [(''name'', JStr ''B''), (''primaryEmail'', JStr ''alice@example.org'')]),
        example_state [] [])"
proof -
  let ?self = "example_client [''b'', ''a'']"
  let ?a = "\<lparr>name = ''a'', is_google_workspace = True\<rparr>"
  let ?b = "\<lparr>name = ''b'', is_google_workspace = True\<rparr>"
  have h1: "property_mappings (provider ?self) = [?a, ?b] \<or>
      property_mappings (provider ?self) = [?b, ?a]"
    by (simp add: example_client_def)
  have h2: "name ?a < name ?b"
    by simp
  have h3: "is_google_workspace ?a" and h4: "is_google_workspace ?b"
    by simp_all
  have h5: "evaluate ?self ?a alice (provider ?self) = Inr (JDict [(''name'', JStr ''A'')])"
    by (simp add: example_client_def example_evaluate_def)
  have h6: "evaluate ?self ?b alice (provider ?self) = Inr (JDict [(''name'', JStr ''B'')])"
    by (simp add: example_client_def example_evaluate_def)
  from to_schema_last_mapping_wins [OF h1 h2 h3 h4 h5 h6, of "example_state [] []"]
  show ?thesis
    by (simp add: example_client_def alice_def)
qed

subsection \<open>C7: no mappings\<close>

text \<open>
  C7. With no property mapping attached to the provider, \<open>write\<close> raises StopSync
  ("No user mappings configured") and leaves the state as it was: no link record is created,
  with or without an earlier link record, and nothing is sent.
\<close>

theorem write_without_mappings_stops:
  assumes "property_mappings (provider self) = []"
  shows "write_user self st obj =
    (Inl (StopSync (ValueError ''No user mappings configured'') None), st)"
proof (cases "first_link self st obj")
  case None
  with assms show ?thesis
    by (simp add: write_user_def private_create_def to_schema_no_mappings)
next
  case (Some google_user)
  with assms show ?thesis
    by (simp add: write_user_def private_update_def to_schema_no_mappings)
qed

theorem write_without_mappings_stops_witness:
  "property_mappings (provider (example_client [])) = [] \<and>
   write_user (example_client []) (example_state [alice_link] []) alice =
     (Inl (StopSync (ValueError ''No user mappings configured'') None),
      example_state [alice_link] [])"
  using write_without_mappings_stops [of "example_client []" "example_state [alice_link] []" alice]
  by (simp add: example_client_def)

subsection \<open>C8: a transient error on create\<close>

text \<open>
  C8. On the create path, when the directory answers the insert with a Transient error, the
  error reaches the caller and the link table is unchanged; only the remote side and the log
  of requests have moved. \<open>write\<close> of a user without a link record is this create path.
\<close>

theorem create_transient_propagates:
  assumes "to_schema self st usr = (Inr google_user, st)"
    and "email_arguments google_user = Inr args"
    and "check_email_valid self args = None"
    and "execute self (remote st) (Insert google_user) = (Inl TransientSyncException, r')"
  shows "private_create self st usr =
      (Inl TransientSyncException,
       st\<lparr>remote := r', calls := calls st @ [Insert google_user]\<rparr>)
    \<and> links (snd (private_create self st usr)) = links st
    \<and> (first_link self st usr = None \<longrightarrow>
         write_user self st usr = private_create self st usr)"
  using assms by (simp add: write_user_unlinked private_create_sent)

theorem create_transient_propagates_witness:
  "execute (example_client [''default'']) [Inl TransientSyncException] (Insert alice_document) =
     (Inl TransientSyncException, [])
   \<and> private_create (example_client [''default''])
         (example_state [] [Inl TransientSyncException]) alice =
       (Inl TransientSyncException,
        \<lparr>links = [], events = [], remote = [], calls = [Insert alice_document]\<rparr>)
   \<and> write_user (example_client [''default''])
         (example_state [] [Inl TransientSyncException]) alice =
       (Inl TransientSyncException,
        \<lparr>links = [], events = [], remote = [], calls = [Insert alice_document]\<rparr>)"
proof -
  let ?self = "example_client [''default'']"
  let ?st = "example_state [] [Inl TransientSyncException]"
  have h1: "first_link ?self ?st alice = None"
    by (simp add: example_defs)
  have h5: "execute ?self (remote ?st) (Insert alice_document) =
      (Inl TransientSyncException, [])"
    by (simp add: example_defs)
  from create_transient_propagates [OF example_schema example_arguments example_check h5]
    h1 h5
  show ?thesis
    by (simp add: example_state_def)
qed

subsection \<open>C9: another error on create\<close>

text \<open>
  C9, as stated, asks that every error of the insert other than ObjectExists and Transient
  reaches the caller as StopSync. \<open>_create\<close> converts nothing: a NotFound answer to the
  insert reaches the caller as NotFoundSyncException.
\<close>

theorem create_other_error_counterexample:
  "execute (example_client [''default'']) [Inl NotFoundSyncException] (Insert alice_document) =
     (Inl NotFoundSyncException, [])
   \<and> private_create (example_client [''default''])
         (example_state [] [Inl NotFoundSyncException]) alice =
       (Inl NotFoundSyncException,
        \<lparr>links = [], events = [], remote = [], calls = [Insert alice_document]\<rparr>)"
  by (simp add: example_defs private_create_def atomic_def private_request_def)

text \<open>
  C9, amended. On the create path, an error of the insert other than ObjectExists and
  Transient reaches the caller as the directory client raised it, and no link record is
  created.
\<close>

theorem create_other_error_propagates:
  assumes "to_schema self st usr = (Inr google_user, st)"
    and "email_arguments google_user = Inr args"
    and "check_email_valid self args = None"
    and "execute self (remote st) (Insert google_user) = (Inl e, r')"
    and "e \<noteq> ObjectExistsSyncException" and "e \<noteq> TransientSyncException"
  shows "private_create self st usr =
      (Inl e, st\<lparr>remote := r', calls := calls st @ [Insert google_user]\<rparr>)
    \<and> links (snd (private_create self st usr)) = links st"
  using assms by (simp add: private_create_sent)

theorem create_other_error_propagates_witness:
  "execute (example_client [''default''])
     [Inl (StopSync (OtherException ''forbidden'') None)] (Insert alice_document) =
     (Inl (StopSync (OtherException ''forbidden'') None), [])
   \<and> private_create (example_client [''default''])
         (example_state [alice_link] [Inl (StopSync (OtherException ''forbidden'') None)]) alice =
       (Inl (StopSync (OtherException ''forbidden'') None),
        \<lparr>links = [alice_link], events = [], remote = [], calls = [Insert alice_document]\<rparr>)"
proof -
  let ?self = "example_client [''default'']"
  let ?e = "StopSync (OtherException ''forbidden'') None"
  let ?st = "example_state [alice_link] [Inl ?e]"
  have h5: "execute ?self (remote ?st) (Insert alice_document) = (Inl ?e, [])"
    by (simp add: example_defs)
  have h6: "?e \<noteq> ObjectExistsSyncException" and h7: "?e \<noteq> TransientSyncException"
    by simp_all
  from create_other_error_propagates
    [OF example_schema example_arguments example_check h5 h6 h7] h5
  show ?thesis
    by (simp add: example_state_def)
qed

subsection \<open>C10: the missing primaryEmail\<close>

text \<open>
  C10. When the mappings leave a document in which \<open>primaryEmail\<close> is present with the
  value \<open>None\<close>, \<open>to_schema\<close> returns a document without the key \<open>primaryEmail\<close>:
  the default is not filled in, and the null value is stripped. \<open>_create\<close>, \<open>_update\<close>
  and \<open>write\<close> then raise \<open>KeyError\<close> on \<open>google_user["primaryEmail"]\<close> and leave
  the state as it was, so no request has been sent.
\<close>

theorem null_primary_email_key_error:
  assumes "merge_mappings self obj (sort_key name (property_mappings (provider self))) [] st =
             (Inr raw_google_user, st')"
    and "map_of raw_google_user ''primaryEmail'' = Some JNone"
  shows "to_schema self st obj = (Inr (JDict (delete_none_values raw_google_user)), st)
    \<and> \<not> contains (delete_none_values raw_google_user) ''primaryEmail''
    \<and> private_create self st obj = (Inl (KeyError ''primaryEmail''), st)
    \<and> private_update self st obj connection = (Inl (KeyError ''primaryEmail''), st)
    \<and> write_user self st obj = (Inl (KeyError ''primaryEmail''), st)"
proof -
  have st': "st' = st"
    using assms(1)
      merge_mappings_ok [of self obj "sort_key name (property_mappings (provider self))"
        "[]" st raw_google_user st]
    by simp
  have present: "contains raw_google_user ''primaryEmail''"
    using assms(2) by (auto simp: contains_def dest: map_of_SomeD intro: rev_image_eqI)
  then have nonempty: "raw_google_user \<noteq> []"
    by (auto simp: contains_def)
  have "distinct (map fst raw_google_user)"
    using assms(1) by (rule merge_mappings_distinct) simp
  then have stripped: "\<not> contains (delete_none_values raw_google_user) ''primaryEmail''"
    using assms(2) by (rule none_value_stripped)
  have schema: "to_schema self st obj = (Inr (JDict (delete_none_values raw_google_user)), st)"
    using assms(1) st' present nonempty by (simp add: to_schema_def)
  have "map_of (delete_none_values raw_google_user) ''primaryEmail'' = None"
    using stripped by (simp add: contains_def map_of_eq_None_iff)
  then have args: "email_arguments (JDict (delete_none_values raw_google_user)) =
      Inl (KeyError ''primaryEmail'')"
    by (simp add: email_arguments_def)
  have create: "private_create self st obj = (Inl (KeyError ''primaryEmail''), st)"
    using schema args by (simp add: private_create_def)
  have update: "private_update self st obj c = (Inl (KeyError ''primaryEmail''), st)" for c
    using schema args by (simp add: private_update_def)
  have "write_user self st obj = (Inl (KeyError ''primaryEmail''), st)"
    using create update by (simp add: write_user_def split: option.splits)
  with schema stripped create update show ?thesis
    by simp
qed

theorem null_primary_email_key_error_witness:
  "merge_mappings (example_client [''nick'']) alice
     (sort_key name (property_mappings (provider (example_client [''nick'']))))
     [] (example_state [alice_link] []) =
     (Inr [(''primaryEmail'', JNone), (''nickName'', JStr ''Bob'')], example_state [alice_link] [])
   \<and> to_schema (example_client [''nick'']) (example_state [alice_link] []) alice =
       (Inr (JDict [(''nickName'', JStr ''Bob'')]), example_state [alice_link] [])
   \<and> private_create (example_client [''nick'']) (example_state [alice_link] []) alice =
       (Inl (KeyError ''primaryEmail''), example_state [alice_link] [])
   \<and> private_update (example_client [''nick'']) (example_state [alice_link] []) alice alice_link =
       (Inl (KeyError ''primaryEmail''), example_state [alice_link] [])
   \<and> write_user (example_client [''nick'']) (example_state [alice_link] []) alice =
       (Inl (KeyError ''primaryEmail''), example_state [alice_link] [])"
proof -
  let ?self = "example_client [''nick'']"
  let ?st = "example_state [alice_link] []"
  let ?raw = "[(''primaryEmail'', JNone), (''nickName'', JStr ''Bob'')]"
  have h1: "merge_mappings ?self alice (sort_key name (property_mappings (provider ?self)))
      [] ?st = (Inr ?raw, ?st)"
    by (simp add: example_client_def example_evaluate_def always_merger_merge_def)
  have h2: "map_of ?raw ''primaryEmail'' = Some JNone"
    by simp
  from null_primary_email_key_error [OF h1 h2, of alice_link] h1 show ?thesis
    by (simp add: delete_none_values_def)
qed

end
